theory Spec2Isabelle
  imports Complex_Main "HOL-Library.AList"
begin

section \<open>Python values shared by both services\<close>

text \<open>
  Floats are modelled as real numbers: every comparison and every arithmetic step of the
  source is kept, its rounding is not. Exceptions are values of \<open>py_error\<close>; a
  function that can raise returns \<open>py_error + 'a\<close>, with \<open>Inl\<close> the exception.

  The dataclasses of the source carry type annotations that Python does not enforce.
  Where the source would go on with a value outside the annotated type (a string where
  a float is announced), the typed model stops with \<open>IllTyped\<close>: this is not an
  exception of the source, it marks the end of what the typed records can express.
\<close>

datatype py_error =
    JSONDecodeError
  | KeyError string
  | ValueError
  | TypeError
  | AttributeError
  | ZeroDivisionError
  | StopIteration
  | ScoringUnavailable
  | IllTyped string

definition bindE :: "py_error + 'a \<Rightarrow> ('a \<Rightarrow> py_error + 'b) \<Rightarrow> py_error + 'b" where
  "bindE m f = (case m of Inl e \<Rightarrow> Inl e | Inr x \<Rightarrow> f x)"

fun foldE :: "('a \<Rightarrow> 'b \<Rightarrow> py_error + 'b) \<Rightarrow> 'a list \<Rightarrow> 'b \<Rightarrow> py_error + 'b" where
  "foldE f [] acc = Inr acc"
| "foldE f (x # xs) acc = bindE (f x acc) (foldE f xs)"

fun mapE :: "('a \<Rightarrow> py_error + 'b) \<Rightarrow> 'a list \<Rightarrow> py_error + 'b list" where
  "mapE f [] = Inr []"
| "mapE f (x # xs) = bindE (f x) (\<lambda>y. bindE (mapE f xs) (\<lambda>ys. Inr (y # ys)))"

text \<open>
  The values \<open>json.loads\<close> returns and \<open>json.dumps\<close> accepts. A Python \<open>dict\<close>
  keeps insertion order and is an association list here; \<open>int\<close> and \<open>float\<close> are both
  \<open>JNum\<close>.
\<close>

datatype json =
    JNull
  | JBool bool
  | JNum real
  | JStr string
  | JArr "json list"
  | JObj "(string \<times> json) list"

text \<open>\<open>obj[key]\<close>, \<open>obj.get(key)\<close> and \<open>for f in obj\<close> on a value that came out of \<open>json.loads\<close>.\<close>

definition py_getitem :: "json \<Rightarrow> string \<Rightarrow> py_error + json" where
  "py_getitem obj k =
     (case obj of
        JObj kvs \<Rightarrow> (case map_of kvs k of None \<Rightarrow> Inl (KeyError k) | Some v \<Rightarrow> Inr v)
      | _ \<Rightarrow> Inl TypeError)"

definition py_get :: "json \<Rightarrow> string \<Rightarrow> py_error + json" where
  "py_get obj k =
     (case obj of
        JObj kvs \<Rightarrow> (case map_of kvs k of None \<Rightarrow> Inr JNull | Some v \<Rightarrow> Inr v)
      | _ \<Rightarrow> Inl AttributeError)"

definition py_iter :: "json \<Rightarrow> py_error + json list" where
  "py_iter obj =
     (case obj of
        JArr xs \<Rightarrow> Inr xs
      | JObj kvs \<Rightarrow> Inr (map (\<lambda>kv. JStr (fst kv)) kvs)
      | JStr cs \<Rightarrow> Inr (map (\<lambda>c. JStr [c]) cs)
      | _ \<Rightarrow> Inl TypeError)"

text \<open>Reading a JSON value at the annotated type of the field that receives it.\<close>

definition as_str :: "string \<Rightarrow> json \<Rightarrow> py_error + string" where
  "as_str field j = (case j of JStr x \<Rightarrow> Inr x | _ \<Rightarrow> Inl (IllTyped field))"

definition as_float :: "string \<Rightarrow> json \<Rightarrow> py_error + real" where
  "as_float field j = (case j of JNum x \<Rightarrow> Inr x | _ \<Rightarrow> Inl (IllTyped field))"

definition as_opt_float :: "string \<Rightarrow> json \<Rightarrow> py_error + real option" where
  "as_opt_float field j =
     (case j of JNull \<Rightarrow> Inr None | JNum x \<Rightarrow> Inr (Some x) | _ \<Rightarrow> Inl (IllTyped field))"

definition as_opt_str :: "string \<Rightarrow> json \<Rightarrow> py_error + string option" where
  "as_opt_str field j =
     (case j of JNull \<Rightarrow> Inr None | JStr x \<Rightarrow> Inr (Some x) | _ \<Rightarrow> Inl (IllTyped field))"

datatype py_value = Num real | Str string

definition as_value :: "string \<Rightarrow> json \<Rightarrow> py_error + py_value" where
  "as_value field j =
     (case j of JNum x \<Rightarrow> Inr (Num x) | JStr x \<Rightarrow> Inr (Str x) | _ \<Rightarrow> Inl (IllTyped field))"

definition json_of_value :: "py_value \<Rightarrow> json" where
  "json_of_value v = (case v of Num x \<Rightarrow> JNum x | Str x \<Rightarrow> JStr x)"

definition json_of_opt_float :: "real option \<Rightarrow> json" where
  "json_of_opt_float v = (case v of None \<Rightarrow> JNull | Some x \<Rightarrow> JNum x)"

definition json_of_opt_str :: "string option \<Rightarrow> json" where
  "json_of_opt_str v = (case v of None \<Rightarrow> JNull | Some x \<Rightarrow> JStr x)"

definition as_float_dict :: "string \<Rightarrow> json \<Rightarrow> py_error + (string \<times> real) list" where
  "as_float_dict field j =
     (case j of
        JObj kvs \<Rightarrow> mapE (\<lambda>kv. bindE (as_float field (snd kv)) (\<lambda>x. Inr (fst kv, x))) kvs
      | _ \<Rightarrow> Inl (IllTyped field))"

text \<open>
  What the source takes from outside the repository: the standard library
  (\<open>json.dumps\<close>, \<open>json.loads\<close>, \<open>datetime.isoformat\<close>, \<open>datetime.fromisoformat\<close>,
  \<open>datetime.utcnow\<close>, \<open>str.format\<close> on a recommendation template) and the trained
  classifier behind \<open>scaler.transform\<close> and \<open>model.predict_proba\<close>, which maps a
  feature vector to a probability or fails. The type \<open>'dt\<close> stands for \<open>datetime\<close>.
\<close>

record 'dt py_env =
  json_dumps :: "json \<Rightarrow> string"
  json_loads :: "string \<Rightarrow> py_error + json"
  isoformat :: "'dt \<Rightarrow> string"
  fromisoformat :: "string \<Rightarrow> py_error + 'dt"
  utcnow :: 'dt
  str_format :: "string \<Rightarrow> real \<Rightarrow> string"
  predict_proba :: "real list \<Rightarrow> py_error + real"







section \<open>models/student\_risk\_model.py\<close>

subsection \<open>Enumerations and dataclasses\<close>

datatype RiskLevel = LOW | MODERATE | HIGH | CRITICAL

datatype RiskTrend = INCREASING | STABLE | DECREASING

datatype FeatureCategory = ACADEMIC | ENGAGEMENT | BEHAVIORAL | TEMPORAL

fun RiskLevel_value :: "RiskLevel \<Rightarrow> string" where
  "RiskLevel_value LOW = ''low''"
| "RiskLevel_value MODERATE = ''moderate''"
| "RiskLevel_value HIGH = ''high''"
| "RiskLevel_value CRITICAL = ''critical''"

fun RiskTrend_value :: "RiskTrend \<Rightarrow> string" where
  "RiskTrend_value INCREASING = ''increasing''"
| "RiskTrend_value STABLE = ''stable''"
| "RiskTrend_value DECREASING = ''decreasing''"

fun FeatureCategory_value :: "FeatureCategory \<Rightarrow> string" where
  "FeatureCategory_value ACADEMIC = ''academic''"
| "FeatureCategory_value ENGAGEMENT = ''engagement''"
| "FeatureCategory_value BEHAVIORAL = ''behavioral''"
| "FeatureCategory_value TEMPORAL = ''temporal''"

text \<open>The members of \<open>FeatureCategory\<close> in declaration order, as iterating the enum gives them.\<close>

definition FeatureCategory_members :: "FeatureCategory list" where
  "FeatureCategory_members = [ACADEMIC, ENGAGEMENT, BEHAVIORAL, TEMPORAL]"

text \<open>A \<open>current_value: float | str\<close> is a \<open>py_value\<close>.\<close>

record RiskFactor =
  rf_feature :: string
  rf_category :: FeatureCategory
  rf_description :: string
  rf_current_value :: py_value
  rf_contribution :: real
  rf_severity :: string
  rf_threshold :: "real option"
  rf_recommendation :: "string option"

record ProtectiveFactor =
  pf_feature :: string
  pf_category :: FeatureCategory
  pf_description :: string
  pf_current_value :: py_value
  pf_contribution :: real

record 'dt RiskPrediction =
  student_id :: string
  timestamp :: 'dt
  risk_score :: real
  risk_level :: RiskLevel
  confidence :: real
  category_scores :: "(string \<times> real) list"
  top_risk_factors :: "RiskFactor list"
  protective_factors :: "ProtectiveFactor list"
  risk_trend :: RiskTrend
  previous_risk_score :: "real option"
  score_change :: "real option"
  model_version :: string

record FeatureDefinition =
  name :: string
  category :: FeatureCategory
  description :: string
  risk_direction :: string
  threshold_low :: "real option"
  threshold_high :: "real option"
  importance_weight :: real
  recommendation_template :: "string option"

definition mk_feature ::
  "string \<Rightarrow> FeatureCategory \<Rightarrow> string \<Rightarrow> string \<Rightarrow> real \<Rightarrow> real \<Rightarrow> real \<Rightarrow> string
     \<Rightarrow> FeatureDefinition" where
  "mk_feature n c d dir lo hi w t =
     \<lparr>name = n, category = c, description = d, risk_direction = dir,
      threshold_low = Some lo, threshold_high = Some hi, importance_weight = w,
      recommendation_template = Some t\<rparr>"

definition RISK_FEATURES :: "FeatureDefinition list" where
  "RISK_FEATURES =
   [mk_feature ''current_mastery'' ACADEMIC
      ''Current overall mastery level across all skills''
      ''low_is_risk'' 0.4 0.7 0.15
      ''Consider focused practice on skills below 50% mastery'',
    mk_feature ''mastery_trend_7d'' ACADEMIC
      ''Change in mastery level over the last 7 days''
      ''low_is_risk'' (- 0.1) 0.05 0.12
      ''Mastery is declining; review recent learning activities'',
    mk_feature ''skill_gaps_count'' ACADEMIC
      ''Number of skills below 50% mastery''
      ''high_is_risk'' 2 5 0.08
      ''Target the {value} skills that need the most improvement'',
    mk_feature ''correct_first_attempt_rate'' ACADEMIC
      ''Proportion of questions answered correctly on first attempt''
      ''low_is_risk'' 0.4 0.7 0.07
      ''Consider prerequisite skill review before new content'',
    mk_feature ''mastery_vs_class'' ACADEMIC
      ''Performance relative to class average''
      ''low_is_risk'' (- 0.2) 0.0 0.05
      ''Student may benefit from peer tutoring or additional support'',
    mk_feature ''days_since_last_session'' ENGAGEMENT
      ''Number of days since last learning session''
      ''high_is_risk'' 3 7 0.11
      ''Re-engage student with motivating content or check-in'',
    mk_feature ''session_frequency_7d'' ENGAGEMENT
      ''Number of learning sessions in the last 7 days''
      ''low_is_risk'' 2 5 0.10
      ''Encourage more frequent, shorter practice sessions'',
    mk_feature ''completion_rate'' ENGAGEMENT
      ''Proportion of assigned activities completed''
      ''low_is_risk'' 0.5 0.8 0.09
      ''Break down assignments into smaller, achievable goals'',
    mk_feature ''session_abandonment_rate'' ENGAGEMENT
      ''Proportion of sessions ended early without completion''
      ''high_is_risk'' 0.1 0.3 0.06
      ''Investigate potential frustration or distraction issues'',
    mk_feature ''avg_session_duration'' ENGAGEMENT
      ''Average time spent per session in minutes''
      ''low_is_risk'' 5 15 0.04
      ''Encourage sustained engagement with appropriate breaks'',
    mk_feature ''frustration_signals'' BEHAVIORAL
      ''Detected frustration events (rapid wrong answers, resets)''
      ''high_is_risk'' 3 8 0.08
      ''Provide scaffolding or reduce difficulty temporarily'',
    mk_feature ''help_request_rate'' BEHAVIORAL
      ''Rate of help/hint requests per activity''
      ''high_is_risk'' 0.3 0.6 0.04
      ''Consider if content is at appropriate difficulty level'',
    mk_feature ''hint_dependency_ratio'' BEHAVIORAL
      ''Ratio of correct answers following hints to total correct''
      ''high_is_risk'' 0.3 0.6 0.03
      ''Gradually reduce hint availability to build independence'',
    mk_feature ''time_of_day_variance'' TEMPORAL
      ''Consistency of learning time (lower is more consistent)''
      ''high_is_risk'' 2 6 0.02
      ''Help establish consistent learning routine'',
    mk_feature ''weekend_engagement_ratio'' TEMPORAL
      ''Ratio of weekend to weekday engagement''
      ''low_is_risk'' 0.1 0.5 0.01
      ''Encourage balanced learning schedule'']"

subsection \<open>Risk tier and contribution\<close>

definition get_risk_level :: "real \<Rightarrow> RiskLevel" where
  "get_risk_level score =
     (if score \<ge> 0.75 then CRITICAL
      else if score \<ge> 0.5 then HIGH
      else if score \<ge> 0.25 then MODERATE
      else LOW)"

text \<open>The order of the tiers: low, moderate, high, critical.\<close>

fun RiskLevel_rank :: "RiskLevel \<Rightarrow> nat" where
  "RiskLevel_rank LOW = 0"
| "RiskLevel_rank MODERATE = 1"
| "RiskLevel_rank HIGH = 2"
| "RiskLevel_rank CRITICAL = 3"

definition normalize_risk_contribution :: "FeatureDefinition \<Rightarrow> real \<Rightarrow> real" where
  "normalize_risk_contribution feature_def v =
     (case (threshold_low feature_def, threshold_high feature_def) of
        (Some lo, Some hi) \<Rightarrow>
          if risk_direction feature_def = ''high_is_risk'' then
            (if v \<le> lo then 0.0
             else if v \<ge> hi then 1.0
             else (v - lo) / (hi - lo))
          else
            (if v \<ge> hi then 0.0
             else if v \<le> lo then 1.0
             else 1.0 - (v - lo) / (hi - lo))
      | _ \<Rightarrow> 0.5)"

subsection \<open>Confidence, category scores and factors\<close>

text \<open>
  A \<open>features: dict[str, float]\<close> is a map from feature names to values. Every use in
  the source treats a key whose value is \<open>None\<close> as it treats a missing key, so such an
  entry is a missing key of the map.
\<close>

type_synonym features = "string \<Rightarrow> real option"




text \<open>
  The first loop of \<open>_calculate_category_scores\<close>: \<open>acc\<close> is the dictionary of lists,
  one entry per category, and \<open>category_scores[k].append(x)\<close> is \<open>AList.map_entry\<close>.
\<close>

fun category_scores_loop ::
  "FeatureDefinition list \<Rightarrow> features \<Rightarrow> (string \<times> real list) list \<Rightarrow> (string \<times> real list) list" where
  "category_scores_loop [] fs acc = acc"
| "category_scores_loop (feature_def # rest) fs acc =
     (case fs (name feature_def) of
        None \<Rightarrow> category_scores_loop rest fs acc
      | Some v \<Rightarrow>
          (let risk_contribution = normalize_risk_contribution feature_def v
           in category_scores_loop rest fs
                (AList.map_entry (FeatureCategory_value (category feature_def))
                   (\<lambda>vals. vals @ [risk_contribution * importance_weight feature_def]) acc)))"

definition calculate_category_scores :: "features \<Rightarrow> (string \<times> real) list" where
  "calculate_category_scores fs =
     (let scores = category_scores_loop RISK_FEATURES fs
                     (map (\<lambda>cat. (FeatureCategory_value cat, [])) FeatureCategory_members)
      in map (\<lambda>(cat_key, vals).
                (cat_key,
                 if vals \<noteq> [] then
                   sum_list vals /
                   sum_list (map importance_weight
                     (filter (\<lambda>f. FeatureCategory_value (category f) = cat_key) RISK_FEATURES))
                 else 0.0))
           scores)"






subsection \<open>Serialization\<close>

definition RiskLevel_of :: "json \<Rightarrow> py_error + RiskLevel" where
  "RiskLevel_of j =
     (if j = JStr ''low'' then Inr LOW
      else if j = JStr ''moderate'' then Inr MODERATE
      else if j = JStr ''high'' then Inr HIGH
      else if j = JStr ''critical'' then Inr CRITICAL
      else Inl ValueError)"

definition RiskTrend_of :: "json \<Rightarrow> py_error + RiskTrend" where
  "RiskTrend_of j =
     (if j = JStr ''increasing'' then Inr INCREASING
      else if j = JStr ''stable'' then Inr STABLE
      else if j = JStr ''decreasing'' then Inr DECREASING
      else Inl ValueError)"

definition FeatureCategory_of :: "json \<Rightarrow> py_error + FeatureCategory" where
  "FeatureCategory_of j =
     (if j = JStr ''academic'' then Inr ACADEMIC
      else if j = JStr ''engagement'' then Inr ENGAGEMENT
      else if j = JStr ''behavioral'' then Inr BEHAVIORAL
      else if j = JStr ''temporal'' then Inr TEMPORAL
      else Inl ValueError)"

definition datetime_fromisoformat :: "'dt py_env \<Rightarrow> json \<Rightarrow> py_error + 'dt" where
  "datetime_fromisoformat env j =
     (case j of JStr x \<Rightarrow> fromisoformat env x | _ \<Rightarrow> Inl TypeError)"

definition risk_factor_dict :: "RiskFactor \<Rightarrow> json" where
  "risk_factor_dict f =
     JObj [(''feature'', JStr (rf_feature f)),
           (''category'', JStr (FeatureCategory_value (rf_category f))),
           (''description'', JStr (rf_description f)),
           (''current_value'', json_of_value (rf_current_value f)),
           (''contribution'', JNum (rf_contribution f)),
           (''severity'', JStr (rf_severity f)),
           (''threshold'', json_of_opt_float (rf_threshold f)),
           (''recommendation'', json_of_opt_str (rf_recommendation f))]"

definition protective_factor_dict :: "ProtectiveFactor \<Rightarrow> json" where
  "protective_factor_dict f =
     JObj [(''feature'', JStr (pf_feature f)),
           (''category'', JStr (FeatureCategory_value (pf_category f))),
           (''description'', JStr (pf_description f)),
           (''current_value'', json_of_value (pf_current_value f)),
           (''contribution'', JNum (pf_contribution f))]"

text \<open>The dictionary that \<open>_serialize_prediction\<close> hands to \<open>json.dumps\<close>.\<close>

definition prediction_dict :: "'dt py_env \<Rightarrow> 'dt RiskPrediction \<Rightarrow> json" where
  "prediction_dict env prediction =
     JObj [(''student_id'', JStr (student_id prediction)),
           (''timestamp'', JStr (isoformat env (timestamp prediction))),
           (''risk_score'', JNum (risk_score prediction)),
           (''risk_level'', JStr (RiskLevel_value (risk_level prediction))),
           (''confidence'', JNum (confidence prediction)),
           (''category_scores'', JObj (map (\<lambda>kv. (fst kv, JNum (snd kv))) (category_scores prediction))),
           (''top_risk_factors'', JArr (map risk_factor_dict (top_risk_factors prediction))),
           (''protective_factors'', JArr (map protective_factor_dict (protective_factors prediction))),
           (''risk_trend'', JStr (RiskTrend_value (risk_trend prediction))),
           (''previous_risk_score'', json_of_opt_float (previous_risk_score prediction)),
           (''score_change'', json_of_opt_float (score_change prediction)),
           (''model_version'', JStr (model_version prediction))]"

definition serialize_prediction :: "'dt py_env \<Rightarrow> 'dt RiskPrediction \<Rightarrow> string" where
  "serialize_prediction env prediction = json_dumps env (prediction_dict env prediction)"

text \<open>
  The keyword arguments of each constructor call are evaluated in the order they are
  written, so the first failing one decides the exception.
\<close>

definition risk_factor_of :: "json \<Rightarrow> py_error + RiskFactor" where
  "risk_factor_of f =
     bindE (bindE (py_getitem f ''feature'') (as_str ''feature'')) (\<lambda>v_feature.
     bindE (bindE (py_getitem f ''category'') FeatureCategory_of) (\<lambda>v_category.
     bindE (bindE (py_getitem f ''description'') (as_str ''description'')) (\<lambda>v_description.
     bindE (bindE (py_getitem f ''current_value'') (as_value ''current_value'')) (\<lambda>v_current_value.
     bindE (bindE (py_getitem f ''contribution'') (as_float ''contribution'')) (\<lambda>v_contribution.
     bindE (bindE (py_getitem f ''severity'') (as_str ''severity'')) (\<lambda>v_severity.
     bindE (bindE (py_get f ''threshold'') (as_opt_float ''threshold'')) (\<lambda>v_threshold.
     bindE (bindE (py_get f ''recommendation'') (as_opt_str ''recommendation'')) (\<lambda>v_recommendation.
     Inr \<lparr>rf_feature = v_feature, rf_category = v_category, rf_description = v_description,
          rf_current_value = v_current_value, rf_contribution = v_contribution,
          rf_severity = v_severity, rf_threshold = v_threshold,
          rf_recommendation = v_recommendation\<rparr>))))))))"

definition protective_factor_of :: "json \<Rightarrow> py_error + ProtectiveFactor" where
  "protective_factor_of f =
     bindE (bindE (py_getitem f ''feature'') (as_str ''feature'')) (\<lambda>v_feature.
     bindE (bindE (py_getitem f ''category'') FeatureCategory_of) (\<lambda>v_category.
     bindE (bindE (py_getitem f ''description'') (as_str ''description'')) (\<lambda>v_description.
     bindE (bindE (py_getitem f ''current_value'') (as_value ''current_value'')) (\<lambda>v_current_value.
     bindE (bindE (py_getitem f ''contribution'') (as_float ''contribution'')) (\<lambda>v_contribution.
     Inr \<lparr>pf_feature = v_feature, pf_category = v_category, pf_description = v_description,
          pf_current_value = v_current_value, pf_contribution = v_contribution\<rparr>)))))"

definition prediction_of_dict :: "'dt py_env \<Rightarrow> json \<Rightarrow> py_error + 'dt RiskPrediction" where
  "prediction_of_dict env obj =
     bindE (bindE (py_getitem obj ''student_id'') (as_str ''student_id'')) (\<lambda>v_student_id.
     bindE (bindE (py_getitem obj ''timestamp'') (datetime_fromisoformat env)) (\<lambda>v_timestamp.
     bindE (bindE (py_getitem obj ''risk_score'') (as_float ''risk_score'')) (\<lambda>v_risk_score.
     bindE (bindE (py_getitem obj ''risk_level'') RiskLevel_of) (\<lambda>v_risk_level.
     bindE (bindE (py_getitem obj ''confidence'') (as_float ''confidence'')) (\<lambda>v_confidence.
     bindE (bindE (py_getitem obj ''category_scores'') (as_float_dict ''category_scores'')) (\<lambda>v_category_scores.
     bindE (bindE (bindE (py_getitem obj ''top_risk_factors'') py_iter) (mapE risk_factor_of)) (\<lambda>v_top_risk_factors.
     bindE (bindE (bindE (py_getitem obj ''protective_factors'') py_iter) (mapE protective_factor_of)) (\<lambda>v_protective_factors.
     bindE (bindE (py_getitem obj ''risk_trend'') RiskTrend_of) (\<lambda>v_risk_trend.
     bindE (bindE (py_get obj ''previous_risk_score'') (as_opt_float ''previous_risk_score'')) (\<lambda>v_previous_risk_score.
     bindE (bindE (py_get obj ''score_change'') (as_opt_float ''score_change'')) (\<lambda>v_score_change.
     bindE (bindE (py_getitem obj ''model_version'') (as_str ''model_version'')) (\<lambda>v_model_version.
     Inr \<lparr>student_id = v_student_id, timestamp = v_timestamp, risk_score = v_risk_score,
          risk_level = v_risk_level, confidence = v_confidence,
          category_scores = v_category_scores, top_risk_factors = v_top_risk_factors,
          protective_factors = v_protective_factors, risk_trend = v_risk_trend,
          previous_risk_score = v_previous_risk_score, score_change = v_score_change,
          model_version = v_model_version\<rparr>))))))))))))"

definition deserialize_prediction :: "'dt py_env \<Rightarrow> string \<Rightarrow> py_error + 'dt RiskPrediction" where
  "deserialize_prediction env data = bindE (json_loads env data) (prediction_of_dict env)"

subsection \<open>History and the prediction itself\<close>







section \<open>services/bias\_detection.py\<close>

subsection \<open>Enumerations and dataclasses\<close>

datatype FairnessMetric =
    STATISTICAL_PARITY
  | EQUALIZED_ODDS
  | DISPARATE_IMPACT
  | CALIBRATION
  | FALSE_POSITIVE_RATE
  | FALSE_NEGATIVE_RATE

text \<open>
  The members of \<open>BiasSeverity\<close> carry the prefix \<open>BIAS_\<close>, since \<open>LOW\<close>, \<open>MODERATE\<close>,
  \<open>HIGH\<close> and \<open>CRITICAL\<close> are the members of \<open>RiskLevel\<close> above.
\<close>

datatype BiasSeverity = BIAS_NONE | BIAS_LOW | BIAS_MODERATE | BIAS_HIGH | BIAS_CRITICAL

datatype ProtectedAttribute =
    RACE_ETHNICITY
  | GENDER
  | SOCIOECONOMIC_STATUS
  | DISABILITY_STATUS
  | ENGLISH_LEARNER
  | GRADE_LEVEL

fun FairnessMetric_value :: "FairnessMetric \<Rightarrow> string" where
  "FairnessMetric_value STATISTICAL_PARITY = ''statistical_parity''"
| "FairnessMetric_value EQUALIZED_ODDS = ''equalized_odds''"
| "FairnessMetric_value DISPARATE_IMPACT = ''disparate_impact''"
| "FairnessMetric_value CALIBRATION = ''calibration''"
| "FairnessMetric_value FALSE_POSITIVE_RATE = ''false_positive_rate''"
| "FairnessMetric_value FALSE_NEGATIVE_RATE = ''false_negative_rate''"

fun BiasSeverity_value :: "BiasSeverity \<Rightarrow> string" where
  "BiasSeverity_value BIAS_NONE = ''none''"
| "BiasSeverity_value BIAS_LOW = ''low''"
| "BiasSeverity_value BIAS_MODERATE = ''moderate''"
| "BiasSeverity_value BIAS_HIGH = ''high''"
| "BiasSeverity_value BIAS_CRITICAL = ''critical''"

fun ProtectedAttribute_value :: "ProtectedAttribute \<Rightarrow> string" where
  "ProtectedAttribute_value RACE_ETHNICITY = ''race_ethnicity''"
| "ProtectedAttribute_value GENDER = ''gender''"
| "ProtectedAttribute_value SOCIOECONOMIC_STATUS = ''socioeconomic_status''"
| "ProtectedAttribute_value DISABILITY_STATUS = ''disability_status''"
| "ProtectedAttribute_value ENGLISH_LEARNER = ''english_learner''"
| "ProtectedAttribute_value GRADE_LEVEL = ''grade_level''"

definition ProtectedAttribute_members :: "ProtectedAttribute list" where
  "ProtectedAttribute_members =
     [RACE_ETHNICITY, GENDER, SOCIOECONOMIC_STATUS, DISABILITY_STATUS, ENGLISH_LEARNER, GRADE_LEVEL]"

record GroupStatistics =
  group_name :: string
  sample_size :: nat
  mean_prediction :: real
  std_prediction :: real
  positive_rate :: real
  true_positive_rate :: "real option"
  false_positive_rate :: "real option"
  false_negative_rate :: "real option"
  calibration_error :: "real option"

record FairnessResult =
  metric :: FairnessMetric
  attribute :: ProtectedAttribute
  reference_group :: string
  comparison_group :: string
  reference_value :: real
  comparison_value :: real
  difference :: real
  ratio :: "real option"
  p_value :: "real option"
  is_significant :: bool
  severity :: BiasSeverity
  explanation :: string

text \<open>
  \<open>br_tenant_id\<close> and \<open>br_model_version\<close> are the fields \<open>tenant_id\<close> and
  \<open>model_version\<close> of \<open>BiasReport\<close>.
\<close>

record 'dt BiasReport =
  report_id :: string
  generated_at :: 'dt
  br_tenant_id :: string
  br_model_version :: string
  analysis_period_start :: 'dt
  analysis_period_end :: 'dt
  total_predictions :: nat
  demographic_coverage :: "(string \<times> nat) list"
  fairness_results :: "FairnessResult list"
  group_statistics :: "(string \<times> GroupStatistics list) list"
  overall_bias_severity :: BiasSeverity
  recommendations :: "string list"
  requires_review :: bool
  confidence_score :: real

text \<open>
  One entry of the \<open>predictions\<close> argument,
  \<open>{"student_id": str, "risk_score": float, "demographics": dict}\<close>. The source reads the
  demographics with \<open>pred.get("demographics", {})\<close>: an entry without the key has the
  empty map. One entry of \<open>outcomes\<close> is \<open>{"student_id": str, "actual_outcome": bool}\<close>,
  a pair here.
\<close>

record bias_prediction =
  bp_student_id :: string
  bp_risk_score :: real
  bp_demographics :: "string \<Rightarrow> string option"

text \<open>
  What this service takes from outside the repository: \<open>datetime.utcnow()\<close>,
  \<open>strftime('%Y%m%d_%H%M%S')\<close>, \<open>now - timedelta(days=n)\<close>, \<open>scipy.stats.norm.cdf\<close>, the
  float formats \<open>{x:.1f}\<close> and \<open>{x:.2f}\<close> of the explanations (\<open>format_fixed 1\<close> and
  \<open>format_fixed 2\<close>), and the order in which a \<open>set\<close> of attributes is iterated.
\<close>

record 'dt bias_lib =
  bias_utcnow :: 'dt
  strftime :: "'dt \<Rightarrow> string"
  minus_days :: "'dt \<Rightarrow> int \<Rightarrow> 'dt"
  norm_cdf :: "real \<Rightarrow> real"
  format_fixed :: "nat \<Rightarrow> real \<Rightarrow> string"
  set_iteration :: "ProtectedAttribute list \<Rightarrow> ProtectedAttribute list"

subsection \<open>Thresholds and severity\<close>

definition BIAS_THRESHOLDS :: "(FairnessMetric \<times> (string \<times> real) list) list" where
  "BIAS_THRESHOLDS =
     [(STATISTICAL_PARITY,
         [(''low'', 0.05), (''moderate'', 0.10), (''high'', 0.15), (''critical'', 0.20)]),
      (DISPARATE_IMPACT,
         [(''low'', 0.90), (''moderate'', 0.85), (''high'', 0.80), (''critical'', 0.70)]),
      (EQUALIZED_ODDS,
         [(''low'', 0.05), (''moderate'', 0.10), (''high'', 0.15), (''critical'', 0.20)]),
      (FALSE_POSITIVE_RATE,
         [(''low'', 0.05), (''moderate'', 0.10), (''high'', 0.15), (''critical'', 0.20)]),
      (FALSE_NEGATIVE_RATE,
         [(''low'', 0.05), (''moderate'', 0.10), (''high'', 0.15), (''critical'', 0.20)])]"

definition MINIMUM_GROUP_SIZE :: nat where
  "MINIMUM_GROUP_SIZE = 30"

definition SIGNIFICANCE_LEVEL :: real where
  "SIGNIFICANCE_LEVEL = 0.05"

text \<open>
  \<open>difference >= thresholds.get(key, float("inf"))\<close>: a missing key gives the bound
  infinity, which no difference reaches.
\<close>

definition reaches :: "real \<Rightarrow> (string \<times> real) list \<Rightarrow> string \<Rightarrow> bool" where
  "reaches d thresholds k = (case map_of thresholds k of None \<Rightarrow> False | Some t \<Rightarrow> d \<ge> t)"

definition get_severity :: "FairnessMetric \<Rightarrow> real \<Rightarrow> BiasSeverity" where
  "get_severity m d =
     (let thresholds = (case map_of BIAS_THRESHOLDS m of None \<Rightarrow> [] | Some t \<Rightarrow> t)
      in if reaches d thresholds ''critical'' then BIAS_CRITICAL
         else if reaches d thresholds ''high'' then BIAS_HIGH
         else if reaches d thresholds ''moderate'' then BIAS_MODERATE
         else if reaches d thresholds ''low'' then BIAS_LOW
         else BIAS_NONE)"

definition get_severity_di :: "real \<Rightarrow> BiasSeverity" where
  "get_severity_di r =
     (let thresholds = the (map_of BIAS_THRESHOLDS DISPARATE_IMPACT)
      in if r \<le> the (map_of thresholds ''critical'') then BIAS_CRITICAL
         else if r \<le> the (map_of thresholds ''high'') then BIAS_HIGH
         else if r \<le> the (map_of thresholds ''moderate'') then BIAS_MODERATE
         else if r \<le> the (map_of thresholds ''low'') then BIAS_LOW
         else BIAS_NONE)"

subsection \<open>Explanations\<close>

definition replace_underscores :: "string \<Rightarrow> string" where
  "replace_underscores x = map (\<lambda>c. if c = CHR ''_'' then CHR '' '' else c) x"

definition generate_explanation ::
  "'dt bias_lib \<Rightarrow> FairnessMetric \<Rightarrow> ProtectedAttribute \<Rightarrow> string \<Rightarrow> string \<Rightarrow> real \<Rightarrow> real
     \<Rightarrow> BiasSeverity \<Rightarrow> string" where
  "generate_explanation lib m attr ref_group cmp_group ref_value cmp_value sev =
     (let attr_name = replace_underscores (ProtectedAttribute_value attr)
      in if m = STATISTICAL_PARITY then
           (let diff_pct = \<bar>ref_value - cmp_value\<bar> * 100;
                higher_group = (if ref_value > cmp_value then ref_group else cmp_group)
            in ''High-risk prediction rates differ by '' @ format_fixed lib 1 diff_pct
               @ ''% between '' @ attr_name @ '' groups. ''
               @ ''The '' @ higher_group @ '' group has a higher rate of high-risk classifications. ''
               @ ''Severity: '' @ BiasSeverity_value sev @ ''.'')
         else if m = DISPARATE_IMPACT then
           (if ref_value > 0 then
              ''Disparate impact ratio is '' @ format_fixed lib 2 (cmp_value / ref_value)
              @ '' for '' @ attr_name @ ''. ''
              @ ''A ratio below 0.80 may indicate bias. ''
              @ ''Severity: '' @ BiasSeverity_value sev @ ''.''
            else ''Cannot calculate disparate impact - reference group rate is zero.'')
         else if m = FALSE_POSITIVE_RATE then
           (let diff_pct = \<bar>ref_value - cmp_value\<bar> * 100
            in ''False positive rates differ by '' @ format_fixed lib 1 diff_pct
               @ ''% between '' @ attr_name @ '' groups. ''
               @ ''This means one group may be incorrectly flagged as high-risk more often. ''
               @ ''Severity: '' @ BiasSeverity_value sev @ ''.'')
         else if m = FALSE_NEGATIVE_RATE then
           (let diff_pct = \<bar>ref_value - cmp_value\<bar> * 100;
                higher_group = (if ref_value > cmp_value then ref_group else cmp_group)
            in ''False negative rates differ by '' @ format_fixed lib 1 diff_pct
               @ ''% between '' @ attr_name @ '' groups. ''
               @ ''The '' @ higher_group @ '' group may have at-risk students missed more often. ''
               @ ''Severity: '' @ BiasSeverity_value sev @ ''.'')
         else ''Fairness metric '' @ FairnessMetric_value m @ '' analyzed for '' @ attr_name
              @ ''. Severity: '' @ BiasSeverity_value sev @ ''.'')"

subsection \<open>Grouping and group statistics\<close>

text \<open>\<open>d[k].append(x)\<close> on a \<open>defaultdict(list)\<close>: a new key goes to the end.\<close>

definition dict_append :: "string \<Rightarrow> 'a \<Rightarrow> (string \<times> 'a list) list \<Rightarrow> (string \<times> 'a list) list" where
  "dict_append k x d =
     (case map_of d k of
        None \<Rightarrow> d @ [(k, [x])]
      | Some xs \<Rightarrow> AList.update k (xs @ [x]) d)"

type_synonym groups = "(string \<times> bias_prediction list) list"

definition group_prediction :: "bias_prediction \<Rightarrow> (string \<times> groups) list \<Rightarrow> (string \<times> groups) list" where
  "group_prediction pred grouped =
     fold (\<lambda>attr g.
             case bp_demographics pred (ProtectedAttribute_value attr) of
               None \<Rightarrow> g
             | Some v \<Rightarrow> AList.map_entry (ProtectedAttribute_value attr) (dict_append v pred) g)
          ProtectedAttribute_members grouped"

definition group_by_demographics :: "bias_prediction list \<Rightarrow> (string \<times> groups) list" where
  "group_by_demographics predictions =
     fold group_prediction predictions
       (map (\<lambda>attr. (ProtectedAttribute_value attr, [])) ProtectedAttribute_members)"

definition np_mean :: "real list \<Rightarrow> real" where
  "np_mean xs = sum_list xs / real (length xs)"

definition np_std :: "real list \<Rightarrow> real" where
  "np_std xs = sqrt (np_mean (map (\<lambda>x. \<bar>x - np_mean xs\<bar> ^ 2) xs))"

text \<open>
  The body of the loop of \<open>_calculate_group_statistics\<close> for one group. A group
  without predictions ends in the division by \<open>len(scores)\<close>.
\<close>

definition group_statistics_of ::
  "(string \<times> bool) list \<Rightarrow> string \<times> bias_prediction list \<Rightarrow> py_error + GroupStatistics" where
  "group_statistics_of outcome_map entry =
     (let scores = map bp_risk_score (snd entry)
      in if scores = [] then Inl ZeroDivisionError
         else
           (let mean_pred = np_mean scores;
                std_pred = np_std scores;
                pos_rate = real (length (filter (\<lambda>x. x \<ge> 0.5) scores)) / real (length scores);
                matched = (if outcome_map \<noteq> [] then
                             List.map_filter
                               (\<lambda>p. map_option (\<lambda>a. (bp_risk_score p, a))
                                      (map_of outcome_map (bp_student_id p)))
                               (snd entry)
                           else []);
                actual_positives = filter (\<lambda>a. a) (map snd matched);
                actual_negatives = filter (\<lambda>a. \<not> a) (map snd matched);
                tpr = (if matched \<noteq> [] \<and> actual_positives \<noteq> [] then
                         Some (real (length (filter (\<lambda>m. fst m \<ge> 0.5 \<and> snd m) matched))
                               / real (length actual_positives))
                       else None);
                fpr = (if matched \<noteq> [] \<and> actual_negatives \<noteq> [] then
                         Some (real (length (filter (\<lambda>m. fst m \<ge> 0.5 \<and> \<not> snd m) matched))
                               / real (length actual_negatives))
                       else None);
                fnr = (if matched \<noteq> [] \<and> actual_positives \<noteq> [] then
                         Some (real (length (filter (\<lambda>m. fst m < 0.5 \<and> snd m) matched))
                               / real (length actual_positives))
                       else None);
                cal_error = (if matched \<noteq> [] \<and> length matched \<ge> 10 then
                               Some \<bar>np_mean (map fst matched)
                                     - np_mean (map (\<lambda>m. if snd m then 1 else 0) matched)\<bar>
                             else None)
            in Inr \<lparr>group_name = fst entry,
                    sample_size = length (snd entry),
                    mean_prediction = mean_pred,
                    std_prediction = std_pred,
                    positive_rate = pos_rate,
                    true_positive_rate = tpr,
                    false_positive_rate = fpr,
                    false_negative_rate = fnr,
                    calibration_error = cal_error\<rparr>))"

definition calculate_group_statistics ::
  "groups \<Rightarrow> (string \<times> bool) list \<Rightarrow> py_error + GroupStatistics list" where
  "calculate_group_statistics gs outcome_map = mapE (group_statistics_of outcome_map) gs"

subsection \<open>Fairness metrics\<close>

text \<open>
  \<open>_evaluate_statistical_parity\<close> divides by \<open>n1 + n2\<close>, by \<open>n1\<close> and by \<open>n2\<close> and
  takes a square root: the three \<open>ZeroDivisionError\<close>s and the \<open>ValueError\<close> of
  \<open>math.sqrt\<close> on a negative number are branches here.
\<close>

definition evaluate_statistical_parity ::
  "'dt bias_lib \<Rightarrow> ProtectedAttribute \<Rightarrow> GroupStatistics \<Rightarrow> GroupStatistics
     \<Rightarrow> py_error + FairnessResult" where
  "evaluate_statistical_parity lib attr reference comparison =
     (let diff = \<bar>positive_rate reference - positive_rate comparison\<bar>;
          n1 = real (sample_size reference);
          n2 = real (sample_size comparison);
          p1 = positive_rate reference;
          p2 = positive_rate comparison
      in if n1 + n2 = 0 then Inl ZeroDivisionError
         else
           (let p_pool = (p1 * n1 + p2 * n2) / (n1 + n2)
            in if n1 = 0 \<or> n2 = 0 then Inl ZeroDivisionError
               else if p_pool * (1 - p_pool) * (1 / n1 + 1 / n2) < 0 then Inl ValueError
               else
                 (let se = sqrt (p_pool * (1 - p_pool) * (1 / n1 + 1 / n2));
                      z_stat = (if se > 0 then (p1 - p2) / se else 0);
                      pv = 2 * (1 - norm_cdf lib \<bar>z_stat\<bar>);
                      sev = get_severity STATISTICAL_PARITY diff;
                      significant = (pv < SIGNIFICANCE_LEVEL \<and> sev \<noteq> BIAS_NONE);
                      expl = generate_explanation lib STATISTICAL_PARITY attr
                               (group_name reference) (group_name comparison)
                               (positive_rate reference) (positive_rate comparison) sev
                  in Inr \<lparr>metric = STATISTICAL_PARITY,
                          attribute = attr,
                          reference_group = group_name reference,
                          comparison_group = group_name comparison,
                          reference_value = positive_rate reference,
                          comparison_value = positive_rate comparison,
                          difference = diff,
                          ratio = (if positive_rate reference > 0
                                   then Some (positive_rate comparison / positive_rate reference)
                                   else None),
                          p_value = Some pv,
                          is_significant = significant,
                          severity = sev,
                          explanation = expl\<rparr>)))"

text \<open>
  \<open>min(ratio, 1/ratio) if ratio and ratio > 0 else 0\<close>: the division happens only for a
  ratio that is neither \<open>None\<close> nor zero and is positive.
\<close>

definition evaluate_disparate_impact ::
  "'dt bias_lib \<Rightarrow> ProtectedAttribute \<Rightarrow> GroupStatistics \<Rightarrow> GroupStatistics \<Rightarrow> FairnessResult" where
  "evaluate_disparate_impact lib attr reference comparison =
     (let r = (if positive_rate reference > 0
               then Some (positive_rate comparison / positive_rate reference)
               else None);
          normalized_ratio = (case r of
                                None \<Rightarrow> 0
                              | Some q \<Rightarrow> if q \<noteq> 0 \<and> q > 0 then min q (1 / q) else 0);
          sev = get_severity_di normalized_ratio;
          expl = generate_explanation lib DISPARATE_IMPACT attr
                   (group_name reference) (group_name comparison)
                   (positive_rate reference) (positive_rate comparison) sev
      in \<lparr>metric = DISPARATE_IMPACT,
          attribute = attr,
          reference_group = group_name reference,
          comparison_group = group_name comparison,
          reference_value = positive_rate reference,
          comparison_value = positive_rate comparison,
          difference = \<bar>positive_rate reference - positive_rate comparison\<bar>,
          ratio = r,
          p_value = None,
          is_significant = (sev \<noteq> BIAS_NONE),
          severity = sev,
          explanation = expl\<rparr>)"

definition rate_gap_result ::
  "'dt bias_lib \<Rightarrow> FairnessMetric \<Rightarrow> ProtectedAttribute \<Rightarrow> GroupStatistics \<Rightarrow> GroupStatistics
     \<Rightarrow> real \<Rightarrow> real \<Rightarrow> FairnessResult" where
  "rate_gap_result lib m attr reference comparison ref_rate cmp_rate =
     (let gap = \<bar>ref_rate - cmp_rate\<bar>;
          sev = get_severity m gap
      in \<lparr>metric = m,
          attribute = attr,
          reference_group = group_name reference,
          comparison_group = group_name comparison,
          reference_value = ref_rate,
          comparison_value = cmp_rate,
          difference = gap,
          ratio = None,
          p_value = None,
          is_significant = (sev \<noteq> BIAS_NONE),
          severity = sev,
          explanation = generate_explanation lib m attr
                          (group_name reference) (group_name comparison) ref_rate cmp_rate sev\<rparr>)"

definition evaluate_equalized_odds ::
  "'dt bias_lib \<Rightarrow> ProtectedAttribute \<Rightarrow> GroupStatistics \<Rightarrow> GroupStatistics \<Rightarrow> FairnessResult list" where
  "evaluate_equalized_odds lib attr reference comparison =
     (case (false_positive_rate reference, false_positive_rate comparison) of
        (Some a, Some b) \<Rightarrow> [rate_gap_result lib FALSE_POSITIVE_RATE attr reference comparison a b]
      | _ \<Rightarrow> [])
     @ (case (false_negative_rate reference, false_negative_rate comparison) of
          (Some a, Some b) \<Rightarrow> [rate_gap_result lib FALSE_NEGATIVE_RATE attr reference comparison a b]
        | _ \<Rightarrow> [])"

subsection \<open>The report\<close>

definition calculate_demographic_coverage :: "bias_prediction list \<Rightarrow> (string \<times> nat) list" where
  "calculate_demographic_coverage predictions =
     map (\<lambda>attr. (ProtectedAttribute_value attr,
                  length (filter (\<lambda>p. bp_demographics p (ProtectedAttribute_value attr) \<noteq> None)
                            predictions)))
         ProtectedAttribute_members"

definition determine_overall_severity :: "FairnessResult list \<Rightarrow> BiasSeverity" where
  "determine_overall_severity results =
     (if results = [] then BIAS_NONE
      else
        (let severities = map severity (filter is_significant results)
         in if severities = [] then BIAS_NONE
            else (case List.find (\<lambda>sev. List.member severities sev)
                         [BIAS_CRITICAL, BIAS_HIGH, BIAS_MODERATE, BIAS_LOW] of
                    Some sev \<Rightarrow> sev
                  | None \<Rightarrow> BIAS_NONE)))"

definition generate_recommendations :: "'dt bias_lib \<Rightarrow> FairnessResult list \<Rightarrow> string list" where
  "generate_recommendations lib results =
     (let significant = filter is_significant results
      in if significant = [] then
           [''No significant bias detected. Continue monitoring with regular analysis.'']
         else
           (if list_ex (\<lambda>r. severity r = BIAS_CRITICAL \<or> severity r = BIAS_HIGH) significant
            then [''URGENT: High-severity bias detected. Convene review committee immediately.'']
            else [])
           @ concat (map (\<lambda>attr.
                 (let attr_results = filter (\<lambda>r. attribute r = attr) significant;
                      attr_name = replace_underscores (ProtectedAttribute_value attr)
                  in (if list_ex (\<lambda>r. metric r = STATISTICAL_PARITY) attr_results
                      then [''Review prediction thresholds for '' @ attr_name
                            @ '' groups to ensure equitable classification rates.'']
                      else [])
                     @ (if list_ex (\<lambda>r. metric r = FALSE_NEGATIVE_RATE) attr_results
                        then [''Some '' @ attr_name @ '' groups may have at-risk students being missed. ''
                              @ ''Consider adjusting sensitivity for these groups.'']
                        else [])
                     @ (if list_ex (\<lambda>r. metric r = FALSE_POSITIVE_RATE) attr_results
                        then [''Some '' @ attr_name @ '' groups may be over-identified as high-risk. ''
                              @ ''Review feature engineering for potential proxy discrimination.'']
                        else [])))
               (set_iteration lib (remdups (map attribute significant))))
           @ (if length significant > 3
              then [''Consider conducting a thorough feature audit to identify potentially biased input features.'']
              else [])
           @ [''Ensure all affected students receive equitable support regardless of model predictions.''])"

definition bias_calculate_confidence :: "bias_prediction list \<Rightarrow> (string \<times> groups) list \<Rightarrow> real" where
  "bias_calculate_confidence predictions grouped_data =
     (let total = length predictions
      in if total < 100 then 0.3
         else
           (let coverage_scores =
                  map (\<lambda>attr.
                         (let gs = (case map_of grouped_data (ProtectedAttribute_value attr) of
                                      None \<Rightarrow> []
                                    | Some g \<Rightarrow> g);
                              valid_groups = length (filter (\<lambda>kv. length (snd kv) \<ge> MINIMUM_GROUP_SIZE) gs)
                          in min (real valid_groups / 3) 1.0))
                      ProtectedAttribute_members;
                avg_coverage = np_mean coverage_scores;
                size_factor = min (real total / 1000) 1.0
            in 0.4 * size_factor + 0.6 * avg_coverage))"

text \<open>
  \<open>max(keys, key=...)\<close> returns the first of the largest elements and raises on an empty
  sequence; \<open>next(...)\<close> on a generator without elements raises \<open>StopIteration\<close>.
\<close>

fun py_max_by :: "('a \<Rightarrow> nat) \<Rightarrow> 'a list \<Rightarrow> py_error + 'a" where
  "py_max_by f [] = Inl ValueError"
| "py_max_by f (x # xs) = Inr (fold (\<lambda>y best. if f y > f best then y else best) xs x)"

definition py_next :: "('a \<Rightarrow> bool) \<Rightarrow> 'a list \<Rightarrow> py_error + 'a" where
  "py_next P xs = (case List.find P xs of None \<Rightarrow> Inl StopIteration | Some x \<Rightarrow> Inr x)"

text \<open>The body of the inner loop of \<open>analyze_bias\<close> for one group that is not the reference.\<close>

definition compare_to_reference ::
  "'dt bias_lib \<Rightarrow> ProtectedAttribute \<Rightarrow> (string \<times> bool) list \<Rightarrow> GroupStatistics \<Rightarrow> GroupStatistics
     \<Rightarrow> py_error + FairnessResult list" where
  "compare_to_reference lib attr outcome_map reference_stats stats =
     bindE (evaluate_statistical_parity lib attr reference_stats stats) (\<lambda>sp_result.
       Inr ([sp_result, evaluate_disparate_impact lib attr reference_stats stats]
            @ (if outcome_map \<noteq> []
               then evaluate_equalized_odds lib attr reference_stats stats
               else [])))"

text \<open>
  The body of the loop over \<open>ProtectedAttribute\<close>; the accumulator holds \<open>all_results\<close>
  and \<open>all_group_stats\<close>. The two \<open>continue\<close> statements return the accumulator as it is.
\<close>

definition analyze_attribute ::
  "'dt bias_lib \<Rightarrow> (string \<times> groups) list \<Rightarrow> (string \<times> bool) list \<Rightarrow> ProtectedAttribute
     \<Rightarrow> FairnessResult list \<times> (string \<times> GroupStatistics list) list
     \<Rightarrow> py_error + (FairnessResult list \<times> (string \<times> GroupStatistics list) list)" where
  "analyze_attribute lib grouped_data outcome_map attr acc =
     (case map_of grouped_data (ProtectedAttribute_value attr) of
        None \<Rightarrow> Inr acc
      | Some gs \<Rightarrow>
          (let valid_groups = filter (\<lambda>kv. length (snd kv) \<ge> MINIMUM_GROUP_SIZE) gs
           in if length valid_groups < 2 then Inr acc
              else
                bindE (calculate_group_statistics valid_groups outcome_map) (\<lambda>group_stats.
                bindE (py_max_by (\<lambda>k. case map_of valid_groups k of None \<Rightarrow> 0 | Some v \<Rightarrow> length v)
                         (map fst valid_groups)) (\<lambda>ref_name.
                bindE (py_next (\<lambda>g. group_name g = ref_name) group_stats) (\<lambda>reference_stats.
                bindE (mapE (\<lambda>stats. if group_name stats = ref_name then Inr []
                                      else compare_to_reference lib attr outcome_map reference_stats stats)
                         group_stats) (\<lambda>new_results.
                Inr (fst acc @ concat new_results,
                     AList.update (ProtectedAttribute_value attr) group_stats (snd acc))))))))"

text \<open>
  \<open>analyze_bias\<close> for a service built with its default \<open>redis_client=None\<close>:
  \<open>_store_report\<close> and \<open>_create_alerts\<close> then return at once, and with a client they only
  write to Redis after the report is complete. \<open>outcomes\<close> is \<open>None\<close> or a list; the
  dictionary comprehension lets a later entry for a student replace an earlier one.
\<close>

definition analyze_bias ::
  "'dt bias_lib \<Rightarrow> string \<Rightarrow> string \<Rightarrow> bias_prediction list \<Rightarrow> (string \<times> bool) list option \<Rightarrow> int
     \<Rightarrow> py_error + 'dt BiasReport" where
  "analyze_bias lib tenant version predictions outcomes analysis_period_days =
     (let now = bias_utcnow lib;
          rid = ''bias_'' @ tenant @ ''_'' @ strftime lib now;
          grouped_data = group_by_demographics predictions;
          outcome_map = (case outcomes of
                           None \<Rightarrow> []
                         | Some os \<Rightarrow> fold (\<lambda>outcome m. AList.update (fst outcome) (snd outcome) m) os [])
      in bindE (foldE (analyze_attribute lib grouped_data outcome_map) ProtectedAttribute_members ([], []))
           (\<lambda>acc.
              (let all_results = fst acc;
                   all_group_stats = snd acc;
                   coverage = calculate_demographic_coverage predictions;
                   overall = determine_overall_severity all_results;
                   recs = generate_recommendations lib all_results;
                   review = (overall = BIAS_HIGH \<or> overall = BIAS_CRITICAL);
                   conf = bias_calculate_confidence predictions grouped_data
               in Inr \<lparr>report_id = rid,
                       generated_at = now,
                       br_tenant_id = tenant,
                       br_model_version = version,
                       analysis_period_start = minus_days lib now analysis_period_days,
                       analysis_period_end = now,
                       total_predictions = length predictions,
                       demographic_coverage = coverage,
                       fairness_results = all_results,
                       group_statistics = all_group_stats,
                       overall_bias_severity = overall,
                       recommendations = recs,
                       requires_review = review,
                       confidence_score = conf\<rparr>)))"

section \<open>The specification's words\<close>

text \<open>
  The specification speaks of the groups of an attribute, of the groups that reach the
  minimum size, and of a confidence formula. These definitions follow its words, not the
  code: the values of an attribute in the order in which the batch first shows them, the
  predictions that carry a value, the number of values carried by at least
  \<open>MINIMUM_GROUP_SIZE\<close> predictions, and the formula
  \<open>0.4 * min(total/1000, 1) + 0.6 * mean over attributes of min(valid_group_count/3, 1)\<close>.
\<close>

definition group_values :: "ProtectedAttribute \<Rightarrow> bias_prediction list \<Rightarrow> string list" where
  "group_values attr predictions =
     rev (remdups (rev (List.map_filter
                          (\<lambda>p. bp_demographics p (ProtectedAttribute_value attr)) predictions)))"

definition group_members :: "ProtectedAttribute \<Rightarrow> string \<Rightarrow> bias_prediction list \<Rightarrow> bias_prediction list" where
  "group_members attr v predictions =
     filter (\<lambda>p. bp_demographics p (ProtectedAttribute_value attr) = Some v) predictions"

definition valid_group_count :: "bias_prediction list \<Rightarrow> ProtectedAttribute \<Rightarrow> nat" where
  "valid_group_count predictions attr =
     length (filter (\<lambda>v. MINIMUM_GROUP_SIZE \<le> length (group_members attr v predictions))
               (group_values attr predictions))"

definition spec_confidence_score :: "bias_prediction list \<Rightarrow> real" where
  "spec_confidence_score predictions =
     0.4 * min (real (length predictions) / 1000) 1
     + 0.6 * (sum_list (map (\<lambda>attr. min (real (valid_group_count predictions attr) / 3) 1)
                          ProtectedAttribute_members)
              / real (length ProtectedAttribute_members))"

section \<open>Example inputs\<close>

definition demo_features :: features where
  "demo_features =
     [''current_mastery'' \<mapsto> 0.4, ''skill_gaps_count'' \<mapsto> 5, ''completion_rate'' \<mapsto> 0.9]"

text \<open>
  A prediction, the dictionary of its serialized form, and an environment whose library
  functions are tables that cover the documents and timestamps used below: timestamps
  count the seconds since 2024-01-01T00:00:00, and only 0 and 1 have an ISO text.
\<close>

definition demo_prediction :: "nat RiskPrediction" where
  "demo_prediction =
     \<lparr>student_id = ''student_123'',
      timestamp = 0,
      risk_score = 0.45,
      risk_level = MODERATE,
      confidence = 0.80,
      category_scores = [(''academic'', 0.4), (''engagement'', 0.3), (''behavioral'', 0.2), (''temporal'', 0.1)],
      top_risk_factors =
        [\<lparr>rf_feature = ''skill_gaps_count'', rf_category = ACADEMIC,
          rf_description = ''Number of skills below 50% mastery'',
          rf_current_value = Num 5, rf_contribution = 0.08, rf_severity = ''high'',
          rf_threshold = Some 5,
          rf_recommendation = Some ''Target the 5 skills that need the most improvement''\<rparr>],
      protective_factors =
        [\<lparr>pf_feature = ''completion_rate'', pf_category = ENGAGEMENT,
          pf_description = ''Proportion of assigned activities completed'',
          pf_current_value = Num 0.9, pf_contribution = 0.09\<rparr>],
      risk_trend = STABLE,
      previous_risk_score = None,
      score_change = None,
      model_version = ''1.0.0''\<rparr>"

definition demo_document :: json where
  "demo_document =
     JObj [(''student_id'', JStr ''student_123''),
           (''timestamp'', JStr ''2024-01-01T00:00:00''),
           (''risk_score'', JNum 0.45),
           (''risk_level'', JStr ''moderate''),
           (''confidence'', JNum 0.80),
           (''category_scores'',
              JObj [(''academic'', JNum 0.4), (''engagement'', JNum 0.3),
                    (''behavioral'', JNum 0.2), (''temporal'', JNum 0.1)]),
           (''top_risk_factors'',
              JArr [JObj [(''feature'', JStr ''skill_gaps_count''),
                          (''category'', JStr ''academic''),
                          (''description'', JStr ''Number of skills below 50% mastery''),
                          (''current_value'', JNum 5),
                          (''contribution'', JNum 0.08),
                          (''severity'', JStr ''high''),
                          (''threshold'', JNum 5),
                          (''recommendation'',
                             JStr ''Target the 5 skills that need the most improvement'')]]),
           (''protective_factors'',
              JArr [JObj [(''feature'', JStr ''completion_rate''),
                          (''category'', JStr ''engagement''),
                          (''description'', JStr ''Proportion of assigned activities completed''),
                          (''current_value'', JNum 0.9),
                          (''contribution'', JNum 0.09)]]),
           (''risk_trend'', JStr ''stable''),
           (''previous_risk_score'', JNull),
           (''score_change'', JNull),
           (''model_version'', JStr ''1.0.0'')]"

definition demo_env :: "nat py_env" where
  "demo_env =
     \<lparr>json_dumps = (\<lambda>j. if j = demo_document then ''<demo document>'' else ''<another document>''),
      json_loads = (\<lambda>x. if x = ''<demo document>'' then Inr demo_document
                          else if x = ''{}'' then Inr (JObj [])
                          else Inl JSONDecodeError),
      isoformat = (\<lambda>t. if t = 0 then ''2024-01-01T00:00:00'' else ''2024-01-01T00:00:01''),
      fromisoformat = (\<lambda>x. if x = ''2024-01-01T00:00:00'' then Inr 0
                             else if x = ''2024-01-01T00:00:01'' then Inr 1
                             else Inl ValueError),
      utcnow = 1,
      str_format = (\<lambda>t v. if t = ''Target the {value} skills that need the most improvement'' \<and> v = 5
                            then ''Target the 5 skills that need the most improvement'' else t),
      predict_proba = (\<lambda>x. Inr 0.62)\<rparr>"



text \<open>
  Stand-ins for the library functions of the fairness service, and the two pairs of
  group statistics used below: the pair of the repository's test of the four-fifths rule
  (positive rates 0.50 and 0.35), and a pair of groups in which nobody is classified as
  high-risk (both positive rates 0).
\<close>

definition demo_lib :: "nat bias_lib" where
  "demo_lib =
     \<lparr>bias_utcnow = 1,
      strftime = (\<lambda>t. if t = 1 then ''20240101_000001'' else ''20240101_000000''),
      minus_days = (\<lambda>t d. t - nat (d * 86400)),
      norm_cdf = (\<lambda>z. if z = 0 then 1 / 2 else 1),
      format_fixed = (\<lambda>digits x. ''#''),
      set_iteration = (\<lambda>attrs. attrs)\<rparr>"

definition demo_group :: "string \<Rightarrow> real \<Rightarrow> real \<Rightarrow> GroupStatistics" where
  "demo_group gname mean_pred pos_rate =
     \<lparr>group_name = gname,
      sample_size = 100,
      mean_prediction = mean_pred,
      std_prediction = 0.1,
      positive_rate = pos_rate,
      true_positive_rate = None,
      false_positive_rate = None,
      false_negative_rate = None,
      calibration_error = None\<rparr>"

section \<open>Properties\<close>

subsection \<open>The error monad\<close>

lemma bindE_Inr [simp]: "bindE (Inr x) f = f x"
  by (simp add: bindE_def)

lemma bindE_Inl [simp]: "bindE (Inl e) f = Inl e"
  by (simp add: bindE_def)

lemma mapE_map_Inr: "(\<And>x. x \<in> set xs \<Longrightarrow> f (g x) = Inr x) \<Longrightarrow> mapE f (map g xs) = Inr xs"
  by (induction xs) simp_all

subsection \<open>Risk tier\<close>

text \<open>
  C5. For every probability between 0 and 1 the tier follows the ladder
  (at least 0.75 critical, at least 0.5 high, at least 0.25 moderate, otherwise low),
  the tier never decreases when the probability grows, and the three boundary values
  0.25, 0.5 and 0.75 fall into moderate, high and critical.
\<close>

theorem risk_level_ladder_monotone:
  "(0 \<le> p \<and> p \<le> 1 \<longrightarrow>
      get_risk_level p =
        (if p \<ge> 0.75 then CRITICAL else if p \<ge> 0.5 then HIGH
         else if p \<ge> 0.25 then MODERATE else LOW))
   \<and> (0 \<le> p \<and> p \<le> q \<and> q \<le> 1 \<longrightarrow>
        RiskLevel_rank (get_risk_level p) \<le> RiskLevel_rank (get_risk_level q))
   \<and> get_risk_level 0.75 = CRITICAL
   \<and> get_risk_level 0.5 = HIGH
   \<and> get_risk_level 0.25 = MODERATE"
  by (simp add: get_risk_level_def)

theorem risk_level_ladder_monotone_witness:
  "get_risk_level 0.749999 = HIGH
   \<and> RiskLevel_rank (get_risk_level 0.749999) \<le> RiskLevel_rank (get_risk_level 0.75)
   \<and> get_risk_level 0.75 = CRITICAL"
  using risk_level_ladder_monotone [of "0.749999" "0.75"]
  by simp

subsection \<open>Contribution normalisation\<close>

lemma interp_mono: "(lo::real) < hi \<Longrightarrow> v \<le> w \<Longrightarrow> (v - lo) / (hi - lo) \<le> (w - lo) / (hi - lo)"
  by (simp add: divide_right_mono)

lemma interp_nonneg: "(lo::real) < hi \<Longrightarrow> lo \<le> v \<Longrightarrow> 0 \<le> (v - lo) / (hi - lo)"
  by simp

lemma interp_le_one: "(lo::real) < hi \<Longrightarrow> v \<le> hi \<Longrightarrow> (v - lo) / (hi - lo) \<le> 1"
  by simp

lemma normalize_high_mono:
  assumes "threshold_low fd = Some lo" "threshold_high fd = Some hi" "lo < hi"
    "risk_direction fd = ''high_is_risk''" "v \<le> w"
  shows "normalize_risk_contribution fd v \<le> normalize_risk_contribution fd w"
  using assms interp_mono [of lo hi v w] interp_nonneg [of lo hi w] interp_le_one [of lo hi v]
  by (auto simp: normalize_risk_contribution_def)

lemma normalize_low_mono:
  assumes "threshold_low fd = Some lo" "threshold_high fd = Some hi" "lo < hi"
    "risk_direction fd \<noteq> ''high_is_risk''" "v \<le> w"
  shows "normalize_risk_contribution fd w \<le> normalize_risk_contribution fd v"
  using assms interp_mono [of lo hi v w] interp_nonneg [of lo hi v] interp_le_one [of lo hi w]
  by (auto simp: normalize_risk_contribution_def)

text \<open>
  C6. With both thresholds defined and the low one below the high one, the contribution
  is monotone in the raw value (never decreasing for \<open>high_is_risk\<close>, never increasing
  for any other direction, which the source treats as \<open>low_is_risk\<close>), it is 0 at the
  low threshold and 1 at the high one for \<open>high_is_risk\<close> and the other way round
  otherwise. When a threshold is absent the contribution is 0.5; the function is total,
  so no case raises.
\<close>

theorem normalize_monotone_endpoints:
  "(threshold_low fd = None \<or> threshold_high fd = None \<longrightarrow>
      normalize_risk_contribution fd v = 0.5)
   \<and> (\<forall>lo hi. threshold_low fd = Some lo \<and> threshold_high fd = Some hi \<and> lo < hi \<longrightarrow>
        (if risk_direction fd = ''high_is_risk''
         then (v \<le> w \<longrightarrow> normalize_risk_contribution fd v \<le> normalize_risk_contribution fd w)
              \<and> normalize_risk_contribution fd lo = 0
              \<and> normalize_risk_contribution fd hi = 1
         else (v \<le> w \<longrightarrow> normalize_risk_contribution fd w \<le> normalize_risk_contribution fd v)
              \<and> normalize_risk_contribution fd lo = 1
              \<and> normalize_risk_contribution fd hi = 0))"
proof (intro conjI impI allI)
  assume "threshold_low fd = None \<or> threshold_high fd = None"
  then show "normalize_risk_contribution fd v = 0.5"
    by (auto simp: normalize_risk_contribution_def split: option.splits)
next
  fix lo hi
  assume h: "threshold_low fd = Some lo \<and> threshold_high fd = Some hi \<and> lo < hi"
  show "if risk_direction fd = ''high_is_risk''
         then (v \<le> w \<longrightarrow> normalize_risk_contribution fd v \<le> normalize_risk_contribution fd w)
              \<and> normalize_risk_contribution fd lo = 0
              \<and> normalize_risk_contribution fd hi = 1
         else (v \<le> w \<longrightarrow> normalize_risk_contribution fd w \<le> normalize_risk_contribution fd v)
              \<and> normalize_risk_contribution fd lo = 1
              \<and> normalize_risk_contribution fd hi = 0"
  proof (cases "risk_direction fd = ''high_is_risk''")
    case True
    with h show ?thesis
      using normalize_high_mono [of fd lo hi v w]
      by (simp add: normalize_risk_contribution_def)
  next
    case False
    with h show ?thesis
      using normalize_low_mono [of fd lo hi v w]
      by (simp add: normalize_risk_contribution_def)
  qed
qed

theorem normalize_monotone_endpoints_witness:
  "normalize_risk_contribution (RISK_FEATURES ! 2) 3 \<le> normalize_risk_contribution (RISK_FEATURES ! 2) 4
   \<and> normalize_risk_contribution (RISK_FEATURES ! 2) 2 = 0
   \<and> normalize_risk_contribution (RISK_FEATURES ! 2) 5 = 1
   \<and> normalize_risk_contribution (RISK_FEATURES ! 6) 4 \<le> normalize_risk_contribution (RISK_FEATURES ! 6) 3
   \<and> normalize_risk_contribution (RISK_FEATURES ! 6) 2 = 1
   \<and> normalize_risk_contribution (RISK_FEATURES ! 6) 5 = 0
   \<and> normalize_risk_contribution ((RISK_FEATURES ! 6)\<lparr>threshold_high := None\<rparr>) 4 = 0.5"
  using normalize_monotone_endpoints [of "RISK_FEATURES ! 2" 3 4]
    normalize_monotone_endpoints [of "RISK_FEATURES ! 6" 3 4]
    normalize_monotone_endpoints [of "(RISK_FEATURES ! 6)\<lparr>threshold_high := None\<rparr>" 4 0]
  by (simp add: RISK_FEATURES_def mk_feature_def)

subsection \<open>Category scores\<close>

lemma map_fst_map_entry: "map fst (AList.map_entry k f xs) = map fst xs"
  by (induction xs) auto

lemma category_scores_loop_keys:
  "map fst (category_scores_loop fds fs acc) = map fst acc"
  by (induction fds fs acc rule: category_scores_loop.induct)
     (auto simp: map_fst_map_entry Let_def split: option.splits)

lemma category_scores_loop_lookup:
  "map_of (category_scores_loop fds fs acc) k =
     map_option (\<lambda>vals. vals @ map (\<lambda>f. normalize_risk_contribution f (the (fs (name f))) * importance_weight f)
         (filter (\<lambda>f. FeatureCategory_value (category f) = k \<and> fs (name f) \<noteq> None) fds))
       (map_of acc k)"
proof (induction fds fs acc rule: category_scores_loop.induct)
  case (1 fs acc)
  then show ?case by (simp add: option.map_ident)
next
  case (2 feature_def rest fs acc)
  show ?case
  proof (cases "fs (name feature_def)")
    case None
    with 2 show ?thesis by simp
  next
    case (Some v)
    with 2 show ?thesis
      by (cases "map_of acc k") (auto simp: Let_def map_of_map_entry)
  qed
qed

lemma map_of_map_keyed:
  "map_of (map (\<lambda>(k, v). (k, g k v)) xs) k = map_option (g k) (map_of xs k)"
  by (induction xs) auto

lemma FeatureCategory_value_inj: "FeatureCategory_value a = FeatureCategory_value b \<longleftrightarrow> a = b"
  by (cases a; cases b) simp_all

text \<open>
  C4. For every feature map and every category, the score stored under the category is
  the sum of contribution times importance weight over the catalog features of the
  category that have a value in the map, divided by the sum of the importance weights
  of all catalog features of the category, whether they have a value or not; a category
  none of whose features has a value gets exactly 0. The result has one entry per
  category, in the order of the enumeration.
\<close>

theorem category_score_formula:
  "map_of (calculate_category_scores fs) (FeatureCategory_value cat) =
     Some (if filter (\<lambda>f. category f = cat \<and> fs (name f) \<noteq> None) RISK_FEATURES = [] then 0
           else sum_list (map (\<lambda>f. normalize_risk_contribution f (the (fs (name f))) * importance_weight f)
                           (filter (\<lambda>f. category f = cat \<and> fs (name f) \<noteq> None) RISK_FEATURES))
                / sum_list (map importance_weight (filter (\<lambda>f. category f = cat) RISK_FEATURES)))
   \<and> map fst (calculate_category_scores fs) = [''academic'', ''engagement'', ''behavioral'', ''temporal'']"
proof
  have init: "map_of (map (\<lambda>c. (FeatureCategory_value c, [])) FeatureCategory_members)
                (FeatureCategory_value cat) = Some ([]::real list)"
    by (cases cat) (simp_all add: FeatureCategory_members_def)
  show "map_of (calculate_category_scores fs) (FeatureCategory_value cat) =
     Some (if filter (\<lambda>f. category f = cat \<and> fs (name f) \<noteq> None) RISK_FEATURES = [] then 0
           else sum_list (map (\<lambda>f. normalize_risk_contribution f (the (fs (name f))) * importance_weight f)
                           (filter (\<lambda>f. category f = cat \<and> fs (name f) \<noteq> None) RISK_FEATURES))
                / sum_list (map importance_weight (filter (\<lambda>f. category f = cat) RISK_FEATURES)))"
    unfolding calculate_category_scores_def Let_def
    by (simp add: map_of_map_keyed category_scores_loop_lookup init FeatureCategory_value_inj)
  show "map fst (calculate_category_scores fs) = [''academic'', ''engagement'', ''behavioral'', ''temporal'']"
    unfolding calculate_category_scores_def Let_def
    by (simp add: category_scores_loop_keys comp_def case_prod_unfold FeatureCategory_members_def)
qed

theorem category_score_formula_witness:
  "map_of (calculate_category_scores demo_features) ''academic'' = Some (23 / 47)
   \<and> map_of (calculate_category_scores demo_features) ''engagement'' = Some 0
   \<and> map_of (calculate_category_scores demo_features) ''temporal'' = Some 0"
  using category_score_formula [of demo_features ACADEMIC]
        category_score_formula [of demo_features ENGAGEMENT]
        category_score_formula [of demo_features TEMPORAL]
  by (simp add: demo_features_def RISK_FEATURES_def mk_feature_def normalize_risk_contribution_def
           del: not_None_eq)

subsection \<open>Risk and protective factors\<close>












subsection \<open>Serialization round trip\<close>

lemma FeatureCategory_roundtrip: "FeatureCategory_of (JStr (FeatureCategory_value c)) = Inr c"
  by (cases c) (simp_all add: FeatureCategory_of_def)

lemma RiskLevel_roundtrip: "RiskLevel_of (JStr (RiskLevel_value l)) = Inr l"
  by (cases l) (simp_all add: RiskLevel_of_def)

lemma RiskTrend_roundtrip: "RiskTrend_of (JStr (RiskTrend_value t)) = Inr t"
  by (cases t) (simp_all add: RiskTrend_of_def)

lemma as_value_roundtrip: "as_value k (json_of_value v) = Inr v"
  by (cases v) (simp_all add: as_value_def json_of_value_def)

lemma as_opt_float_roundtrip: "as_opt_float k (json_of_opt_float v) = Inr v"
  by (cases v) (simp_all add: as_opt_float_def json_of_opt_float_def)

lemma as_opt_str_roundtrip: "as_opt_str k (json_of_opt_str v) = Inr v"
  by (cases v) (simp_all add: as_opt_str_def json_of_opt_str_def)

lemma risk_factor_roundtrip: "risk_factor_of (risk_factor_dict f) = Inr f"
  by (simp add: risk_factor_of_def risk_factor_dict_def py_getitem_def py_get_def as_str_def
        as_float_def FeatureCategory_roundtrip as_value_roundtrip as_opt_float_roundtrip
        as_opt_str_roundtrip)

lemma protective_factor_roundtrip: "protective_factor_of (protective_factor_dict f) = Inr f"
  by (simp add: protective_factor_of_def protective_factor_dict_def py_getitem_def as_str_def
        as_float_def FeatureCategory_roundtrip as_value_roundtrip)

lemma float_dict_roundtrip:
  "as_float_dict k (JObj (map (\<lambda>kv. (fst kv, JNum (snd kv))) xs)) = Inr xs"
proof -
  have "mapE (\<lambda>kv. bindE (as_float k (snd kv)) (\<lambda>x. Inr (fst kv, x)))
          (map (\<lambda>kv. (fst kv, JNum (snd kv))) xs) = Inr xs"
    by (rule mapE_map_Inr) (simp add: as_float_def)
  then show ?thesis by (simp add: as_float_dict_def)
qed

lemma prediction_dict_roundtrip:
  assumes "fromisoformat env (isoformat env (timestamp p)) = Inr (timestamp p)"
  shows "prediction_of_dict env (prediction_dict env p) = Inr p"
  using assms
  by (simp add: prediction_of_dict_def prediction_dict_def py_getitem_def py_get_def as_str_def
        as_float_def datetime_fromisoformat_def RiskLevel_roundtrip RiskTrend_roundtrip
        float_dict_roundtrip as_opt_float_roundtrip py_iter_def
        mapE_map_Inr risk_factor_roundtrip protective_factor_roundtrip)

text \<open>
  C8. Deserializing the serialized form of a prediction gives back the prediction, equal
  in every field, the two factor lists and the category scores included. The records
  are typed, so every prediction here has its enum fields among the declared members and
  real numbers where floats are announced (no NaN). What the standard library must
  provide is stated: \<open>json.loads\<close> reads back the dictionary \<open>json.dumps\<close> wrote, and
  \<open>fromisoformat\<close> reads back the timestamp \<open>isoformat\<close> wrote.
\<close>

theorem serialization_roundtrip:
  assumes "json_loads env (json_dumps env (prediction_dict env p)) = Inr (prediction_dict env p)"
    and "fromisoformat env (isoformat env (timestamp p)) = Inr (timestamp p)"
  shows "deserialize_prediction env (serialize_prediction env p) = Inr p"
  using assms
  by (simp add: deserialize_prediction_def serialize_prediction_def prediction_dict_roundtrip)

lemma demo_document_eq: "prediction_dict demo_env demo_prediction = demo_document"
  by (simp add: prediction_dict_def demo_env_def demo_prediction_def demo_document_def
        risk_factor_dict_def protective_factor_dict_def json_of_value_def
        json_of_opt_float_def json_of_opt_str_def)

theorem serialization_roundtrip_witness:
  "deserialize_prediction demo_env (serialize_prediction demo_env demo_prediction) = Inr demo_prediction"
proof -
  have codec: "json_loads demo_env (json_dumps demo_env (prediction_dict demo_env demo_prediction))
                 = Inr (prediction_dict demo_env demo_prediction)"
    by (simp add: demo_document_eq) (simp add: demo_env_def)
  have iso: "fromisoformat demo_env (isoformat demo_env (timestamp demo_prediction))
               = Inr (timestamp demo_prediction)"
    by (simp add: demo_env_def demo_prediction_def)
  from serialization_roundtrip [OF codec iso] show ?thesis .
qed

subsection \<open>The prediction cache\<close>







subsection \<open>Disparate impact\<close>

lemma get_severity_di_table:
  "get_severity_di r =
     (if r \<le> 0.70 then BIAS_CRITICAL
      else if r \<le> 0.80 then BIAS_HIGH
      else if r \<le> 0.85 then BIAS_MODERATE
      else if r \<le> 0.90 then BIAS_LOW
      else BIAS_NONE)"
  by (simp add: get_severity_di_def BIAS_THRESHOLDS_def)



text \<open>
  C1. When the positive rate of the reference group is zero, the ratio is \<open>None\<close> and no
  division takes place, but the severity does not fall back to none: the normalized
  ratio is set to 0, and the table turns 0 into critical. Here both groups have the
  positive rate 0; the result is critical and significant, and its explanation says
  that the disparate impact cannot be calculated.
\<close>

theorem disparate_impact_zero_reference:
  "ratio (evaluate_disparate_impact demo_lib GENDER
            (demo_group ''reference'' 0.2 0) (demo_group ''comparison'' 0.2 0)) = None
   \<and> severity (evaluate_disparate_impact demo_lib GENDER
            (demo_group ''reference'' 0.2 0) (demo_group ''comparison'' 0.2 0)) = BIAS_CRITICAL
   \<and> is_significant (evaluate_disparate_impact demo_lib GENDER
            (demo_group ''reference'' 0.2 0) (demo_group ''comparison'' 0.2 0))
   \<and> explanation (evaluate_disparate_impact demo_lib GENDER
            (demo_group ''reference'' 0.2 0) (demo_group ''comparison'' 0.2 0))
       = ''Cannot calculate disparate impact - reference group rate is zero.''"
  by (simp add: evaluate_disparate_impact_def Let_def get_severity_di_table demo_group_def
        generate_explanation_def)

subsection \<open>Grouping by demographics\<close>

lemma first_seen_snoc:
  "rev (remdups (rev (xs @ [x]))) = (if x \<in> set xs then rev (remdups (rev xs)) else rev (remdups (rev xs)) @ [x])"
  by simp

lemma set_first_seen: "set (rev (remdups (rev xs))) = set xs"
  by simp

lemma update_keyed_map:
  "distinct ks \<Longrightarrow> k \<in> set ks \<Longrightarrow>
     AList.update k x (map (\<lambda>u. (u, f u)) ks) = map (\<lambda>u. (u, if u = k then x else f u)) ks"
  by (induction ks) (auto simp: )

lemma map_of_keyed_map:
  "map_of (map (\<lambda>u. (u, f u)) ks) k = (if k \<in> set ks then Some (f k) else None)"
  by (induction ks) auto

lemma map_filter_snoc:
  "List.map_filter f (xs @ [x]) = List.map_filter f xs @ (case f x of None \<Rightarrow> [] | Some y \<Rightarrow> [y])"
  by (simp add: List.map_filter_def split: option.splits)

lemma set_map_filter: "set (List.map_filter f xs) = {y. \<exists>x \<in> set xs. f x = Some y}"
  by (force simp: List.map_filter_def image_iff)

lemma single_attribute_groups:
  "fold (\<lambda>p g. case bp_demographics p k of None \<Rightarrow> g | Some v \<Rightarrow> dict_append v p g) preds []
     = map (\<lambda>v. (v, filter (\<lambda>p. bp_demographics p k = Some v) preds))
         (rev (remdups (rev (List.map_filter (\<lambda>p. bp_demographics p k) preds))))"
proof (induction preds rule: rev_induct)
  case Nil
  then show ?case by (simp add: List.map_filter_def)
next
  case (snoc p preds)
  let ?vals = "List.map_filter (\<lambda>p. bp_demographics p k) preds"
  let ?keys = "rev (remdups (rev ?vals))"
  show ?case
  proof (cases "bp_demographics p k")
    case None
    with snoc show ?thesis by (simp add: map_filter_snoc)
  next
    case (Some v)
    show ?thesis
    proof (cases "v \<in> set ?vals")
      case True
      then have mem: "v \<in> set ?keys" by simp
      have dist: "distinct ?keys" by simp
      let ?F = "\<lambda>u. filter (\<lambda>p. bp_demographics p k = Some u) preds"
      have "fold (\<lambda>p g. case bp_demographics p k of None \<Rightarrow> g | Some v \<Rightarrow> dict_append v p g)
              (preds @ [p]) []
            = dict_append v p (map (\<lambda>u. (u, ?F u)) ?keys)"
        using snoc Some by simp
      also have "\<dots> = AList.update v (?F v @ [p]) (map (\<lambda>u. (u, ?F u)) ?keys)"
        using mem by (simp add: dict_append_def map_of_keyed_map del: set_rev set_remdups)
      also have "\<dots> = map (\<lambda>u. (u, if u = v then ?F v @ [p] else ?F u)) ?keys"
        by (rule update_keyed_map [OF dist mem])
      also have "\<dots> = map (\<lambda>u. (u, filter (\<lambda>p. bp_demographics p k = Some u) (preds @ [p]))) ?keys"
        using Some by auto
      also have "?keys = rev (remdups (rev (List.map_filter (\<lambda>p. bp_demographics p k) (preds @ [p]))))"
        using Some True by (simp add: map_filter_snoc)
      finally show ?thesis .
    next
      case False
      then have "filter (\<lambda>p. bp_demographics p k = Some v) preds = []"
        by (auto simp: set_map_filter filter_empty_conv)
      with snoc Some False show ?thesis
        by (auto simp: map_filter_snoc dict_append_def map_of_keyed_map)
    qed
  qed
qed


lemma ProtectedAttribute_value_inj:
  "ProtectedAttribute_value a = ProtectedAttribute_value b \<longleftrightarrow> a = b"
  by (cases a; cases b) simp_all

lemma group_prediction_lookup:
  assumes "map_of G (ProtectedAttribute_value a) = Some g"
  shows "map_of (group_prediction p G) (ProtectedAttribute_value a)
           = Some (case bp_demographics p (ProtectedAttribute_value a) of
                     None \<Rightarrow> g | Some v \<Rightarrow> dict_append v p g)"
  using assms
  by (cases a)
     (simp_all add: group_prediction_def ProtectedAttribute_members_def map_of_map_entry
        split: option.splits)

lemma fold_group_prediction_lookup:
  assumes "map_of G (ProtectedAttribute_value a) = Some g"
  shows "map_of (fold group_prediction preds G) (ProtectedAttribute_value a)
           = Some (fold (\<lambda>p g. case bp_demographics p (ProtectedAttribute_value a) of
                                  None \<Rightarrow> g | Some v \<Rightarrow> dict_append v p g) preds g)"
  using assms
proof (induction preds arbitrary: G g)
  case Nil
  then show ?case by simp
next
  case (Cons p preds)
  from group_prediction_lookup [OF Cons.prems, of p]
  show ?case by (simp add: Cons.IH)
qed

lemma grouped_lookup:
  "map_of (group_by_demographics preds) (ProtectedAttribute_value a)
     = Some (map (\<lambda>v. (v, group_members a v preds)) (group_values a preds))"
proof -
  have init: "map_of (map (\<lambda>attr. (ProtectedAttribute_value attr, [])) ProtectedAttribute_members)
                (ProtectedAttribute_value a) = Some ([] :: groups)"
    by (cases a) (simp_all add: ProtectedAttribute_members_def)
  show ?thesis
    unfolding group_by_demographics_def
    by (simp add: fold_group_prediction_lookup [OF init] single_attribute_groups
          group_members_def group_values_def)
qed

lemma valid_groups_count:
  "length (filter (\<lambda>kv. length (snd kv) \<ge> MINIMUM_GROUP_SIZE)
             (map (\<lambda>v. (v, group_members a v preds)) (group_values a preds)))
     = valid_group_count preds a"
  by (simp add: valid_group_count_def filter_map comp_def)

lemma group_statistics_of_ok:
  assumes "snd entry \<noteq> []"
  shows "\<exists>g. group_statistics_of om entry = Inr g \<and> group_name g = fst entry
           \<and> 0 < sample_size g \<and> 0 \<le> positive_rate g \<and> positive_rate g \<le> 1"
proof -
  have "length (filter (\<lambda>x. x \<ge> 0.5) (map bp_risk_score (snd entry))) \<le> length (snd entry)"
    using length_filter_le [of "\<lambda>x. x \<ge> 0.5" "map bp_risk_score (snd entry)"] by simp
  then have "real (length (filter (\<lambda>x. x \<ge> 0.5) (map bp_risk_score (snd entry))))
               / real (length (snd entry)) \<le> 1"
    using assms by (simp add: divide_le_eq_1)
  with assms show ?thesis
    by (simp add: group_statistics_of_def Let_def)
qed

lemma mapE_ok:
  assumes "\<forall>x \<in> set xs. \<exists>y. f x = Inr y \<and> P x y"
  shows "\<exists>ys. mapE f xs = Inr ys \<and> list_all2 P xs ys"
  using assms
proof (induction xs)
  case Nil
  then show ?case by simp
next
  case (Cons x xs)
  then obtain y ys where "f x = Inr y" "P x y" "mapE f xs = Inr ys" "list_all2 P xs ys"
    by auto
  then show ?case by simp
qed

lemma fold_max_mem:
  "fold (\<lambda>y best. if f y > (f best :: nat) then y else best) xs x \<in> set (x # xs)"
proof (induction xs arbitrary: x)
  case Nil
  then show ?case by simp
next
  case (Cons y ys)
  show ?case using Cons.IH [of "if f y > f x then y else x"] by auto
qed

lemma py_max_by_ok:
  assumes "xs \<noteq> []"
  shows "\<exists>x \<in> set xs. py_max_by f xs = Inr x"
proof (cases xs)
  case Nil
  with assms show ?thesis by simp
next
  case (Cons a rest)
  with fold_max_mem [of f rest a] show ?thesis by auto
qed

lemma py_next_ok: "\<exists>x \<in> set xs. P x \<Longrightarrow> \<exists>y \<in> set xs. py_next P xs = Inr y \<and> P y"
  by (induction xs) (auto simp: py_next_def)

lemma pooled_rate_bounds:
  fixes p1 p2 n1 n2 :: real
  assumes "0 < n1" "0 < n2" "0 \<le> p1" "p1 \<le> 1" "0 \<le> p2" "p2 \<le> 1"
  shows "0 \<le> (p1 * n1 + p2 * n2) / (n1 + n2)" and "(p1 * n1 + p2 * n2) / (n1 + n2) \<le> 1"
proof -
  show "0 \<le> (p1 * n1 + p2 * n2) / (n1 + n2)" using assms by simp
  have "p1 * n1 \<le> n1" "p2 * n2 \<le> n2"
    using assms by (simp_all add: mult_left_le_one_le)
  then have "p1 * n1 + p2 * n2 \<le> n1 + n2" by simp
  with assms show "(p1 * n1 + p2 * n2) / (n1 + n2) \<le> 1" by (simp add: divide_le_eq_1)
qed

lemma evaluate_statistical_parity_ok:
  assumes "0 < sample_size reference" "0 < sample_size comparison"
    "0 \<le> positive_rate reference" "positive_rate reference \<le> 1"
    "0 \<le> positive_rate comparison" "positive_rate comparison \<le> 1"
  shows "\<exists>r. evaluate_statistical_parity lib a reference comparison = Inr r \<and> attribute r = a"
proof -
  let ?n1 = "real (sample_size reference)" and ?n2 = "real (sample_size comparison)"
  let ?pool = "(positive_rate reference * ?n1 + positive_rate comparison * ?n2) / (?n1 + ?n2)"
  have n: "0 < ?n1" "0 < ?n2" using assms by simp_all
  from pooled_rate_bounds [OF n assms(3-6)] have pool: "0 \<le> ?pool" "?pool \<le> 1" .
  from pool have "0 \<le> 1 - ?pool" by simp
  with pool(1) have "0 \<le> ?pool * (1 - ?pool)" by (rule mult_nonneg_nonneg)
  moreover have "0 \<le> 1 / ?n1 + 1 / ?n2" using n by simp
  ultimately have "0 \<le> ?pool * (1 - ?pool) * (1 / ?n1 + 1 / ?n2)"
    by (rule mult_nonneg_nonneg)
  then have "\<not> ?pool * (1 - ?pool) * (1 / ?n1 + 1 / ?n2) < 0" by simp
  with n show ?thesis
    unfolding evaluate_statistical_parity_def Let_def by simp
qed

lemma evaluate_equalized_odds_attribute:
  "r \<in> set (evaluate_equalized_odds lib a reference comparison) \<Longrightarrow> attribute r = a"
  by (auto simp: evaluate_equalized_odds_def rate_gap_result_def Let_def split: option.splits)

lemma compare_to_reference_ok:
  assumes "0 < sample_size reference" "0 < sample_size comparison"
    "0 \<le> positive_rate reference" "positive_rate reference \<le> 1"
    "0 \<le> positive_rate comparison" "positive_rate comparison \<le> 1"
  shows "\<exists>rs. compare_to_reference lib a om reference comparison = Inr rs
           \<and> (\<forall>r \<in> set rs. attribute r = a)"
proof -
  from evaluate_statistical_parity_ok [OF assms, of lib a] obtain sp where
    "evaluate_statistical_parity lib a reference comparison = Inr sp" "attribute sp = a"
    by blast
  then show ?thesis
    by (auto simp: compare_to_reference_def evaluate_disparate_impact_def Let_def
          dest: evaluate_equalized_odds_attribute)
qed


lemma analyze_attribute_ok:
  fixes grouped :: "(string \<times> groups) list"
  defines "valid \<equiv> \<lambda>a. (case map_of grouped (ProtectedAttribute_value a) of
                           None \<Rightarrow> []
                         | Some gs \<Rightarrow> filter (\<lambda>kv. length (snd kv) \<ge> MINIMUM_GROUP_SIZE) gs)"
  shows "\<exists>rs gs'. analyze_attribute lib grouped om a acc = Inr (fst acc @ rs, gs')
           \<and> (\<forall>r \<in> set rs. attribute r = a)
           \<and> (length (valid a) < 2 \<longrightarrow> rs = [] \<and> gs' = snd acc)
           \<and> (\<forall>k. k \<noteq> ProtectedAttribute_value a \<longrightarrow> map_of gs' k = map_of (snd acc) k)"
proof (cases "map_of grouped (ProtectedAttribute_value a)")
  case None
  then show ?thesis by (simp add: analyze_attribute_def valid_def)
next
  case (Some gs)
  let ?valid = "filter (\<lambda>kv. length (snd kv) \<ge> MINIMUM_GROUP_SIZE) gs"
  have va: "valid a = ?valid" using Some by (simp add: valid_def)
  show ?thesis
  proof (cases "length ?valid < 2")
    case True
    with Some show ?thesis by (simp add: analyze_attribute_def va)
  next
    case False
    let ?Q = "\<lambda>g. 0 < sample_size g \<and> 0 \<le> positive_rate g \<and> positive_rate g \<le> 1"
    have "\<forall>e \<in> set ?valid. \<exists>g. group_statistics_of om e = Inr g \<and> (group_name g = fst e \<and> ?Q g)"
    proof
      fix e assume "e \<in> set ?valid"
      then have "snd e \<noteq> []" by (auto simp: MINIMUM_GROUP_SIZE_def)
      from group_statistics_of_ok [OF this, of om] show
        "\<exists>g. group_statistics_of om e = Inr g \<and> (group_name g = fst e \<and> ?Q g)" by blast
    qed
    from mapE_ok [OF this] obtain stats where
      stats: "calculate_group_statistics ?valid om = Inr stats"
        "list_all2 (\<lambda>e g. group_name g = fst e \<and> ?Q g) ?valid stats"
      by (auto simp: calculate_group_statistics_def)
    from stats(2) have names: "map group_name stats = map fst ?valid"
      by (induction rule: list_all2_induct) simp_all
    from stats(2) have allQ: "\<forall>g \<in> set stats. ?Q g"
      by (induction rule: list_all2_induct) simp_all
    from False have "map fst ?valid \<noteq> []" by auto
    from py_max_by_ok [OF this] obtain ref_name where
      ref: "ref_name \<in> set (map fst ?valid)"
        "py_max_by (\<lambda>k. case map_of ?valid k of None \<Rightarrow> 0 | Some v \<Rightarrow> length v) (map fst ?valid)
           = Inr ref_name"
      by blast
    from ref(1) names have "\<exists>g \<in> set stats. group_name g = ref_name"
      by (metis (no_types, lifting) image_iff list.set_map)
    from py_next_ok [OF this] obtain reference_stats where
      rs: "reference_stats \<in> set stats"
        "py_next (\<lambda>g. group_name g = ref_name) stats = Inr reference_stats"
      by blast
    have "\<forall>g \<in> set stats. \<exists>rs.
            (if group_name g = ref_name then Inr []
             else compare_to_reference lib a om reference_stats g) = Inr rs
            \<and> (\<forall>r \<in> set rs. attribute r = a)"
    proof
      fix g assume g: "g \<in> set stats"
      from allQ rs(1) g have "?Q reference_stats" "?Q g" by auto
      then obtain res where "compare_to_reference lib a om reference_stats g = Inr res"
        "\<forall>r \<in> set res. attribute r = a"
        using compare_to_reference_ok [of reference_stats g lib a om] by blast
      then show "\<exists>rs.
            (if group_name g = ref_name then Inr []
             else compare_to_reference lib a om reference_stats g) = Inr rs
            \<and> (\<forall>r \<in> set rs. attribute r = a)" by auto
    qed
    from mapE_ok [OF this] obtain new_results where
      new: "mapE (\<lambda>stats. if group_name stats = ref_name then Inr []
                          else compare_to_reference lib a om reference_stats stats) stats
              = Inr new_results"
        "list_all2 (\<lambda>g rs. \<forall>r \<in> set rs. attribute r = a) stats new_results"
      by blast
    from new(2) have attrs: "\<forall>r \<in> set (concat new_results). attribute r = a"
      by (induction rule: list_all2_induct) auto
    have "analyze_attribute lib grouped om a acc
            = Inr (fst acc @ concat new_results,
                   AList.update (ProtectedAttribute_value a) stats (snd acc))"
      using Some False stats(1) ref(2) rs(2) new(1)
      by (simp add: analyze_attribute_def Let_def)
    with attrs False va show ?thesis
      by (simp add: update_conv')
  qed
qed


end
